theory Spec2Isabelle
  imports Complex_Main
begin

section \<open>Floating-point values\<close>

text \<open>
  The notebook computes with IEEE-754 binary floating-point numbers. A value is a finite
  number, one of the two infinities, or not-a-number. Finite arithmetic is taken to be
  exact (rounding, overflow and underflow of finite results are not modelled); the
  special values follow IEEE-754 as numpy applies it, where a division by zero or a
  logarithm of zero only warns and returns an infinity or NaN. Zero is unsigned:
  \<open>Fin 0\<close> stands for \<open>+0.0\<close>.
\<close>

datatype fval = Fin real | PInf | NInf | NaN

fun flt :: "fval \<Rightarrow> fval \<Rightarrow> bool" where
  "flt NaN _ = False"
| "flt _ NaN = False"
| "flt (Fin a) (Fin b) = (a < b)"
| "flt (Fin a) PInf = True"
| "flt (Fin a) NInf = False"
| "flt PInf _ = False"
| "flt NInf NInf = False"
| "flt NInf _ = True"









section \<open>The standard normal distribution function\<close>

text \<open>
  \<open>scipy.stats.norm.cdf\<close> is the standard normal cumulative distribution function. On
  the reals it is \<open>1/2 + (1 / sqrt (2 pi)) * G x\<close>, where \<open>G x\<close> is the integral of
  \<open>exp (- t\<^sup>2 / 2)\<close> from \<open>0\<close> to \<open>x\<close>, given here by its power series
  \<open>\<Sum>m. (-1/2)^m / (m! (2 m + 1)) * x^(2 m + 1)\<close>. At the infinities \<open>norm.cdf\<close> returns
  \<open>0\<close> and \<open>1\<close>, and NaN at NaN.
\<close>

definition gauss_coeff :: "nat \<Rightarrow> real" where
  "gauss_coeff k =
     (if even k then 0
      else (- 1 / 2) ^ ((k - 1) div 2) / (fact ((k - 1) div 2) * real k))"

definition gauss_int :: "real \<Rightarrow> real" where
  "gauss_int x = (\<Sum>k. gauss_coeff k * x ^ k)"


definition norm_cdf :: "real \<Rightarrow> real" where
  "norm_cdf x = 1 / 2 + gauss_int x / sqrt (2 * pi)"




section \<open>The Black-Scholes put: \<open>ds\<close> and \<open>put\<close>\<close>







section \<open>The train/test split of \<open>fit_net\<close>\<close>

text \<open>
  \<open>np.round\<close> rounds to the nearest integer, a tie to the even neighbour, and returns a
  float; \<open>int\<close> truncates a float towards zero.
\<close>

definition np_round :: "real \<Rightarrow> real" where
  "np_round v =
     (let f = \<lfloor>v\<rfloor>; d = v - of_int f
      in if d < 1 / 2 then of_int f
         else if 1 / 2 < d then of_int (f + 1)
         else if even f then of_int f else of_int (f + 1))"

definition py_int :: "real \<Rightarrow> int" where
  "py_int v = (if 0 \<le> v then \<lfloor>v\<rfloor> else \<lceil>v\<rceil>)"

text \<open>
  A slice bound \<open>i\<close> on a sequence of length \<open>n\<close>: a negative bound counts from the end,
  and the result is clamped to \<open>0..n\<close>. \<open>slice xs lo hi\<close> is \<open>xs[lo:hi]\<close>.
\<close>

definition slice_bound :: "nat \<Rightarrow> int \<Rightarrow> nat" where
  "slice_bound n i = (if i < 0 then nat (i + int n) else min (nat i) n)"

definition slice :: "'a list \<Rightarrow> int \<Rightarrow> int \<Rightarrow> 'a list" where
  "slice xs lo hi =
     (let a = slice_bound (length xs) lo; b = slice_bound (length xs) hi
      in take (b - a) (drop a xs))"

record ('x, 'y) split =
  x_train :: "'x list"
  y_train :: "'y list"
  x_test :: "'x list"
  y_test :: "'y list"

text \<open>Lines 179 to 186 of \<open>fit_net\<close>: the sample count is read from \<open>y\<close>.\<close>

definition n_train :: "'y list \<Rightarrow> real \<Rightarrow> real \<Rightarrow> int" where
  "n_train y pct_test pct_validation =
     py_int (np_round (real (length y) * (1 - pct_test - pct_validation)))"

definition n_test :: "'y list \<Rightarrow> real \<Rightarrow> int" where
  "n_test y pct_test = py_int (np_round (real (length y) * pct_test))"

definition train_test_split :: "'x list \<Rightarrow> 'y list \<Rightarrow> real \<Rightarrow> real \<Rightarrow> ('x, 'y) split" where
  "train_test_split x y pct_test pct_validation =
     (let ntr = n_train y pct_test pct_validation;
          nte = n_test y pct_test
      in \<lparr> x_train = slice x 0 ntr,
           y_train = slice y 0 ntr,
           x_test = slice x ntr (ntr + nte),
           y_test = slice y ntr (ntr + nte) \<rparr>)"

section \<open>The training loop of \<open>fit_net\<close>\<close>

text \<open>
  The tensor library is a parameter of the model: \<open>mse_forward p x y\<close> is
  \<open>loss_func(net(x), y)\<close> for a network whose parameter tensors hold \<open>p\<close>;
  \<open>adam_init\<close> is the internal state of a new \<open>torch.optim.Adam\<close>;
  \<open>adam_step x y p s\<close> is \<open>zero_grad\<close>, \<open>backward\<close> of the loss on the training split and
  \<open>step\<close>, giving the new parameter values and the new optimizer state.
\<close>

record ('x, 'y, 'p, 's) torch =
  mse_forward :: "'p \<Rightarrow> 'x list \<Rightarrow> 'y list \<Rightarrow> fval"
  adam_init :: "'s"
  adam_step :: "'x list \<Rightarrow> 'y list \<Rightarrow> 'p \<Rightarrow> 's \<Rightarrow> 'p \<times> 's"

text \<open>
  Tensors and optimizer states are objects on the heap, named by addresses. The
  optimizer updates the parameter tensors and its own state in place, and
  \<open>state_dict()\<close> of a module or an optimizer returns references to the live tensors,
  not copies; so the values a checkpoint holds are read through the heap.
\<close>

type_synonym addr = nat

record ('p, 's) heap =
  tensors :: "addr \<Rightarrow> 'p"
  optim_states :: "addr \<Rightarrow> 's"
  optim_next :: addr

record net =
  n_hidden :: nat
  n_layers :: nat
  parameters :: addr

datatype entry = Number nat | Tensors addr | Optim addr

type_synonym checkpoint = "string \<rightharpoonup> entry"

record ('p, 's) loop_state =
  mem :: "('p, 's) heap"
  l :: fval
  best_l :: fval
  checkpoint :: checkpoint
  printed :: "(nat \<times> fval) list"

definition state_dict :: "net \<Rightarrow> entry" where
  "state_dict nt = Tensors (parameters nt)"

definition optimizer_state_dict :: "addr \<Rightarrow> entry" where
  "optimizer_state_dict opt = Optim opt"

text \<open>One pass of the loop body, lines 204 to 224, for the epoch index \<open>e\<close>.\<close>

definition epoch ::
  "('x, 'y, 'p, 's) torch \<Rightarrow> net \<Rightarrow> addr \<Rightarrow> ('x, 'y) split \<Rightarrow> nat \<Rightarrow>
   ('p, 's) loop_state \<Rightarrow> ('p, 's) loop_state" where
  "epoch lib nt opt d e s =
     (let h = mem s;
          p = tensors h (parameters nt);
          loss = mse_forward lib p (x_train d) (y_train d);
          loss_test = mse_forward lib p (x_test d) (y_test d);
          (p', o') = adam_step lib (x_train d) (y_train d) p (optim_states h opt);
          h' = h\<lparr> tensors := (tensors h)(parameters nt := p'),
                  optim_states := (optim_states h)(opt := o') \<rparr>;
          s1 = s\<lparr> mem := h', l := loss_test \<rparr>;
          s2 = (if flt loss_test (best_l s1)
                then s1\<lparr> best_l := loss_test,
                         checkpoint :=
                           [''n_hidden'' \<mapsto> Number (n_hidden nt),
                            ''n_layers'' \<mapsto> Number (n_layers nt),
                            ''model_state_dict'' \<mapsto> state_dict nt,
                            ''optimizer_state_dict'' \<mapsto> optimizer_state_dict opt] \<rparr>
                else s1)
      in if (e + 1) mod 100 = 0 then s2\<lparr> printed := printed s2 @ [(e + 1, loss)] \<rparr> else s2)"

text \<open>
  Lines 188 to 200: the optimizer is a new object, its state at a fresh address; the
  loop starts from \<open>l = 123.45\<close>, \<open>best_l = 1e-3\<close> and the empty checkpoint.
\<close>

definition new_optimizer :: "('x, 'y, 'p, 's) torch \<Rightarrow> ('p, 's) heap \<Rightarrow> addr \<times> ('p, 's) heap" where
  "new_optimizer lib h =
     (optim_next h,
      h\<lparr> optim_states := (optim_states h)(optim_next h := adam_init lib),
         optim_next := Suc (optim_next h) \<rparr>)"

definition init_state :: "('p, 's) heap \<Rightarrow> ('p, 's) loop_state" where
  "init_state h =
     \<lparr> mem = h, l = Fin (12345 / 100), best_l = Fin (1 / 1000),
       checkpoint = Map.empty, printed = [] \<rparr>"

text \<open>
  \<open>run\<close> is the loop over \<open>range(n_epochs)\<close>; \<open>fit_net\<close> returns the pair of the source
  together with the heap and the printed lines it leaves behind. Moving the network and
  the data to the device does not change any value, so \<open>device\<close> is not read.
\<close>

definition run ::
  "('x, 'y, 'p, 's) torch \<Rightarrow> net \<Rightarrow> addr \<Rightarrow> ('x, 'y) split \<Rightarrow> int \<Rightarrow>
   ('p, 's) loop_state \<Rightarrow> ('p, 's) loop_state" where
  "run lib nt opt d n_epochs s = fold (epoch lib nt opt d) [0..<nat n_epochs] s"

definition fit_net ::
  "('x, 'y, 'p, 's) torch \<Rightarrow> ('p, 's) heap \<Rightarrow> net \<Rightarrow> int \<Rightarrow> 'x list \<Rightarrow> 'y list \<Rightarrow>
   real \<Rightarrow> real \<Rightarrow> string \<Rightarrow> (fval \<times> checkpoint) \<times> ('p, 's) heap \<times> (nat \<times> fval) list" where
  "fit_net lib h nt n_epochs x y pct_test pct_validation device =
     (let d = train_test_split x y pct_test pct_validation;
          (opt, h0) = new_optimizer lib h;
          s = run lib nt opt d n_epochs (init_state h0)
      in ((best_l s, checkpoint s), mem s, printed s))"

text \<open>What a checkpoint's entries refer to, read in a given heap.\<close>

definition model_params :: "('p, 's) heap \<Rightarrow> checkpoint \<Rightarrow> 'p option" where
  "model_params h c =
     (case c ''model_state_dict'' of Some (Tensors a) \<Rightarrow> Some (tensors h a) | _ \<Rightarrow> None)"

definition optimizer_state :: "('p, 's) heap \<Rightarrow> checkpoint \<Rightarrow> 's option" where
  "optimizer_state h c =
     (case c ''optimizer_state_dict'' of Some (Optim a) \<Rightarrow> Some (optim_states h a) | _ \<Rightarrow> None)"

text \<open>
  The parameter values and the optimizer state after \<open>k\<close> optimizer steps from \<open>(p, s)\<close>,
  and the test loss that epoch \<open>k\<close> computes.
\<close>

definition steps ::
  "('x, 'y, 'p, 's) torch \<Rightarrow> ('x, 'y) split \<Rightarrow> nat \<Rightarrow> 'p \<times> 's \<Rightarrow> 'p \<times> 's" where
  "steps lib d k = (\<lambda>(p, s). adam_step lib (x_train d) (y_train d) p s) ^^ k"

definition test_loss ::
  "('x, 'y, 'p, 's) torch \<Rightarrow> ('x, 'y) split \<Rightarrow> 'p \<Rightarrow> nat \<Rightarrow> fval" where
  "test_loss lib d p k =
     mse_forward lib (fst (steps lib d k (p, adam_init lib))) (x_test d) (y_test d)"


text \<open>
  The loop state of \<open>fit_net\<close> after \<open>k\<close> epochs, and the checkpoint an improving epoch
  records.
\<close>

definition loop_at ::
  "('x, 'y, 'p, 's) torch \<Rightarrow> ('p, 's) heap \<Rightarrow> net \<Rightarrow> 'x list \<Rightarrow> 'y list \<Rightarrow>
   real \<Rightarrow> real \<Rightarrow> nat \<Rightarrow> ('p, 's) loop_state" where
  "loop_at lib h nt x y pct_test pct_validation k =
     run lib nt (fst (new_optimizer lib h)) (train_test_split x y pct_test pct_validation)
       (int k) (init_state (snd (new_optimizer lib h)))"

definition recorded :: "net \<Rightarrow> addr \<Rightarrow> checkpoint" where
  "recorded nt opt =
     [''n_hidden'' \<mapsto> Number (n_hidden nt),
      ''n_layers'' \<mapsto> Number (n_layers nt),
      ''model_state_dict'' \<mapsto> state_dict nt,
      ''optimizer_state_dict'' \<mapsto> optimizer_state_dict opt]"

subsection \<open>A one-weight instance of the library\<close>

text \<open>
  For concrete runs: the network is \<open>x \<mapsto> w * x\<close> with the single weight \<open>w\<close>, the loss
  is the mean squared error (NaN on an empty batch), and one optimizer step moves the
  weight by the learning rate \<open>0.01\<close> against the sign of the gradient of the training
  loss, counting its steps.
\<close>

definition lin_mse :: "real \<Rightarrow> real list \<Rightarrow> real list \<Rightarrow> fval" where
  "lin_mse w xs ys =
     (if xs = [] then NaN
      else Fin (sum_list (map2 (\<lambda>x y. (w * x - y)\<^sup>2) xs ys) / real (length xs)))"

definition lin_grad :: "real \<Rightarrow> real list \<Rightarrow> real list \<Rightarrow> real" where
  "lin_grad w xs ys = sum_list (map2 (\<lambda>x y. 2 * x * (w * x - y)) xs ys) / real (length xs)"

definition sign_step :: "real list \<Rightarrow> real list \<Rightarrow> real \<Rightarrow> nat \<Rightarrow> real \<times> nat" where
  "sign_step xs ys w t = (w - sgn (lin_grad w xs ys) / 100, Suc t)"

definition lin_lib :: "(real, real, real, nat) torch" where
  "lin_lib = \<lparr> mse_forward = lin_mse, adam_init = 0, adam_step = sign_step \<rparr>"

definition heap_w :: "real \<Rightarrow> (real, nat) heap" where
  "heap_w w = \<lparr> tensors = (\<lambda>a. w), optim_states = (\<lambda>a. 0), optim_next = 0 \<rparr>"

definition net1 :: net where
  "net1 = \<lparr> n_hidden = 1, n_layers = 1, parameters = 0 \<rparr>"

definition xs1 :: "real list" where
  "xs1 = [10, 10, 10, 10, 10, 10, 10, 10, 10, 10]"

definition ys1 :: "real list" where
  "ys1 = [0, 0, 0, 0, 0, 0, 0, 10, 10, 10]"

text \<open>A second heap, with the same weight at another address and other contents elsewhere.\<close>

definition heap2 :: "(real, nat) heap" where
  "heap2 = \<lparr> tensors = (\<lambda>a. if a = 5 then 1 else 7), optim_states = (\<lambda>a. 3), optim_next = 4 \<rparr>"

definition net2 :: net where
  "net2 = \<lparr> n_hidden = 1, n_layers = 1, parameters = 5 \<rparr>"

section \<open>Properties of the standard normal distribution function\<close>

subsection \<open>The series converges and its derivative is the Gaussian\<close>





lemma gauss_coeff_even: "even k \<Longrightarrow> gauss_coeff k = 0"
  by (simp add: gauss_coeff_def)






lemma gauss_int_0: "gauss_int 0 = 0"
proof -
  have "gauss_coeff k * 0 ^ k = 0" for k
    by (cases k) (simp_all add: gauss_coeff_even)
  then have "(\<lambda>k. gauss_coeff k * 0 ^ k) = (\<lambda>k. 0)" by (rule ext)
  then show ?thesis unfolding gauss_int_def by (simp only: suminf_zero)
qed


lemma norm_cdf_0: "norm_cdf 0 = 1 / 2"
  by (simp add: norm_cdf_def gauss_int_0)



subsection \<open>Integrals of the powers of the cosine\<close>
















subsection \<open>Bounds on the Gaussian integral\<close>












subsection \<open>Symmetry, range and tails of the distribution function\<close>











section \<open>Properties of \<open>ds\<close> and \<open>put\<close>\<close>





subsection \<open>The put value does not decrease in the volatility\<close>










subsection \<open>The put value lies between zero and the discounted strike\<close>






section \<open>Claims about \<open>ds\<close> and \<open>put\<close>\<close>










section \<open>Properties of the split\<close>

lemma np_round_of_int: "np_round (of_int i) = of_int i"
  by (simp add: np_round_def)

lemma py_int_of_int: "py_int (of_int i) = i"
  by (simp add: py_int_def)








section \<open>Properties of the training loop\<close>

lemma run_Suc:
  "run lib nt opt d (int (Suc k)) s = epoch lib nt opt d k (run lib nt opt d (int k) s)"
  by (simp add: run_def del: of_nat_Suc)

lemma run_nat: "run lib nt opt d (int (nat n)) s = run lib nt opt d n s"
  by (simp add: run_def)

lemma epoch_tensors:
  "tensors (mem (epoch lib nt opt d e s)) (parameters nt) =
     fst (adam_step lib (x_train d) (y_train d) (tensors (mem s) (parameters nt))
            (optim_states (mem s) opt))"
  by (simp add: epoch_def Let_def split: prod.splits)

lemma epoch_optim:
  "optim_states (mem (epoch lib nt opt d e s)) opt =
     snd (adam_step lib (x_train d) (y_train d) (tensors (mem s) (parameters nt))
            (optim_states (mem s) opt))"
  by (simp add: epoch_def Let_def split: prod.splits)

lemma epoch_best:
  "best_l (epoch lib nt opt d e s) =
     (let lt = mse_forward lib (tensors (mem s) (parameters nt)) (x_test d) (y_test d)
      in if flt lt (best_l s) then lt else best_l s)"
  by (simp add: epoch_def Let_def split: prod.splits)

lemma epoch_checkpoint:
  "checkpoint (epoch lib nt opt d e s) =
     (let lt = mse_forward lib (tensors (mem s) (parameters nt)) (x_test d) (y_test d)
      in if flt lt (best_l s) then recorded nt opt else checkpoint s)"
  by (simp add: epoch_def Let_def recorded_def split: prod.splits)

lemma run_state:
  "(tensors (mem (run lib nt opt d (int k) s)) (parameters nt),
    optim_states (mem (run lib nt opt d (int k) s)) opt) =
   steps lib d k (tensors (mem s) (parameters nt), optim_states (mem s) opt)"
proof (induction k)
  case 0
  show ?case by (simp add: run_def steps_def)
next
  case (Suc k)
  have "steps lib d (Suc k) (tensors (mem s) (parameters nt), optim_states (mem s) opt) =
        (\<lambda>(p, s). adam_step lib (x_train d) (y_train d) p s)
          (steps lib d k (tensors (mem s) (parameters nt), optim_states (mem s) opt))"
    by (simp add: steps_def)
  also have "\<dots> = (\<lambda>(p, s). adam_step lib (x_train d) (y_train d) p s)
      (tensors (mem (run lib nt opt d (int k) s)) (parameters nt),
       optim_states (mem (run lib nt opt d (int k) s)) opt)"
    by (simp only: Suc.IH)
  finally show ?case
    by (simp only: run_Suc epoch_tensors epoch_optim prod.case prod.collapse)
qed

lemma fit_net_loop:
  "fit_net lib h nt n_epochs x y pct_test pct_validation device =
     ((best_l (loop_at lib h nt x y pct_test pct_validation (nat n_epochs)),
       checkpoint (loop_at lib h nt x y pct_test pct_validation (nat n_epochs))),
      mem (loop_at lib h nt x y pct_test pct_validation (nat n_epochs)),
      printed (loop_at lib h nt x y pct_test pct_validation (nat n_epochs)))"
  unfolding fit_net_def loop_at_def Let_def run_nat by (simp add: case_prod_beta)

lemma loop_at_0:
  "loop_at lib h nt x y pt pv 0 = init_state (snd (new_optimizer lib h))"
  by (simp add: loop_at_def run_def)

lemma loop_at_Suc:
  "loop_at lib h nt x y pt pv (Suc k) =
     epoch lib nt (fst (new_optimizer lib h)) (train_test_split x y pt pv) k
       (loop_at lib h nt x y pt pv k)"
  unfolding loop_at_def by (rule run_Suc)

lemma loop_at_state:
  "(tensors (mem (loop_at lib h nt x y pt pv k)) (parameters nt),
    optim_states (mem (loop_at lib h nt x y pt pv k)) (fst (new_optimizer lib h))) =
   steps lib (train_test_split x y pt pv) k (tensors h (parameters nt), adam_init lib)"
proof -
  have "tensors (mem (init_state (snd (new_optimizer lib h)))) (parameters nt) =
        tensors h (parameters nt)"
    by (simp add: init_state_def new_optimizer_def)
  moreover have "optim_states (mem (init_state (snd (new_optimizer lib h))))
        (fst (new_optimizer lib h)) = adam_init lib"
    by (simp add: init_state_def new_optimizer_def)
  ultimately show ?thesis
    unfolding loop_at_def run_state by simp
qed

lemma loop_at_tensors:
  "tensors (mem (loop_at lib h nt x y pt pv k)) (parameters nt) =
     fst (steps lib (train_test_split x y pt pv) k (tensors h (parameters nt), adam_init lib))"
  using loop_at_state [of lib h nt x y pt pv k] by (metis fst_conv)

lemma loop_at_optim:
  "optim_states (mem (loop_at lib h nt x y pt pv k)) (fst (new_optimizer lib h)) =
     snd (steps lib (train_test_split x y pt pv) k (tensors h (parameters nt), adam_init lib))"
  using loop_at_state [of lib h nt x y pt pv k] by (metis snd_conv)

lemma loop_at_test_loss:
  "mse_forward lib (tensors (mem (loop_at lib h nt x y pt pv k)) (parameters nt))
     (x_test (train_test_split x y pt pv)) (y_test (train_test_split x y pt pv)) =
   test_loss lib (train_test_split x y pt pv) (tensors h (parameters nt)) k"
  by (simp add: test_loss_def loop_at_tensors)

lemma loop_at_step:
  "(best_l (loop_at lib h nt x y pt pv (Suc k)), checkpoint (loop_at lib h nt x y pt pv (Suc k))) =
     (if flt (test_loss lib (train_test_split x y pt pv) (tensors h (parameters nt)) k)
             (best_l (loop_at lib h nt x y pt pv k))
      then (test_loss lib (train_test_split x y pt pv) (tensors h (parameters nt)) k,
            recorded nt (fst (new_optimizer lib h)))
      else (best_l (loop_at lib h nt x y pt pv k), checkpoint (loop_at lib h nt x y pt pv k)))"
  by (simp add: loop_at_Suc epoch_best epoch_checkpoint Let_def loop_at_test_loss)

lemma loop_at_floor:
  "(\<And>j. j < k \<Longrightarrow>
      \<not> flt (test_loss lib (train_test_split x y pt pv) (tensors h (parameters nt)) j)
            (Fin (1 / 1000)))
   \<Longrightarrow> best_l (loop_at lib h nt x y pt pv k) = Fin (1 / 1000) \<and>
       checkpoint (loop_at lib h nt x y pt pv k) = Map.empty"
proof (induction k)
  case 0
  show ?case by (simp add: loop_at_0 init_state_def)
next
  case (Suc k)
  have IH: "best_l (loop_at lib h nt x y pt pv k) = Fin (1 / 1000) \<and>
       checkpoint (loop_at lib h nt x y pt pv k) = Map.empty"
    using Suc.IH Suc.prems by simp
  have no: "\<not> flt (test_loss lib (train_test_split x y pt pv) (tensors h (parameters nt)) k)
                 (Fin (1 / 1000))"
    using Suc.prems by simp
  show ?case
    using loop_at_step [of lib h nt x y pt pv k] IH no by simp
qed

subsection \<open>The one-weight instance on ten samples\<close>

lemma split1: "train_test_split xs1 ys1 (1 / 5) (1 / 10) =
   \<lparr> x_train = [10, 10, 10, 10, 10, 10, 10], y_train = [0, 0, 0, 0, 0, 0, 0],
     x_test = [10, 10], y_test = [10, 10] \<rparr>"
proof -
  have a: "real (length ys1) * (1 - 1 / 5 - 1 / 10) = of_int 7" by (simp add: ys1_def)
  have b: "real (length ys1) * (1 / 5) = of_int 2" by (simp add: ys1_def)
  show ?thesis
    unfolding train_test_split_def n_train_def n_test_def a b np_round_of_int py_int_of_int
    by (simp add: slice_def slice_bound_def xs1_def ys1_def)
qed

lemma new_optimizer1: "new_optimizer lin_lib (heap_w w) =
   (0, \<lparr> tensors = (\<lambda>a. w), optim_states = (\<lambda>a. 0), optim_next = Suc 0 \<rparr>)"
  by (simp add: new_optimizer_def heap_w_def lin_lib_def fun_upd_idem_iff)

lemma step1_w: "adam_step lin_lib [10, 10, 10, 10, 10, 10, 10] [0, 0, 0, 0, 0, 0, 0] w t =
    (w - sgn w / 100, Suc t)"
  by (simp add: lin_lib_def sign_step_def lin_grad_def sgn_mult)

lemma steps1_0: "steps lin_lib (train_test_split xs1 ys1 (1 / 5) (1 / 10)) 0 (w, t) = (w, t)"
  by (simp add: steps_def)

lemma steps1_Suc: "steps lin_lib (train_test_split xs1 ys1 (1 / 5) (1 / 10)) (Suc k) (w, t) =
    (\<lambda>(w, t). (w - sgn w / 100, Suc t)) (steps lin_lib (train_test_split xs1 ys1 (1 / 5) (1 / 10)) k (w, t))"
  unfolding split1 by (simp add: steps_def step1_w case_prod_beta)

lemma test_loss1: "test_loss lin_lib (train_test_split xs1 ys1 (1 / 5) (1 / 10)) w k =
    Fin ((fst (steps lin_lib (train_test_split xs1 ys1 (1 / 5) (1 / 10)) k (w, 0)) * 10 - 10)\<^sup>2)"
  unfolding test_loss_def by (simp add: split1 lin_lib_def lin_mse_def)

lemma model_params_recorded: "model_params h (recorded nt opt) = Some (tensors h (parameters nt))"
  by (simp add: model_params_def recorded_def state_dict_def)

lemma optimizer_state_recorded: "optimizer_state h (recorded nt opt) = Some (optim_states h opt)"
  by (simp add: optimizer_state_def recorded_def optimizer_state_dict_def)

lemma loop_at_checkpoint_cases:
  "checkpoint (loop_at lib h nt x y pt pv k) = Map.empty \<or>
   checkpoint (loop_at lib h nt x y pt pv k) = recorded nt (fst (new_optimizer lib h))"
proof (induction k)
  case 0
  show ?case by (simp add: loop_at_0 init_state_def)
next
  case (Suc k)
  then show ?case
    using loop_at_step [of lib h nt x y pt pv k] by (auto split: if_splits)
qed

text \<open>Whatever a non-empty checkpoint holds, read after \<open>k\<close> epochs, is the live state.\<close>

lemma checkpoint_reads_live_state:
  assumes "checkpoint (loop_at lib h nt x y pt pv k) \<noteq> Map.empty"
  shows "model_params (mem (loop_at lib h nt x y pt pv k)) (checkpoint (loop_at lib h nt x y pt pv k)) =
           Some (fst (steps lib (train_test_split x y pt pv) k (tensors h (parameters nt), adam_init lib)))"
    and "optimizer_state (mem (loop_at lib h nt x y pt pv k)) (checkpoint (loop_at lib h nt x y pt pv k)) =
           Some (snd (steps lib (train_test_split x y pt pv) k (tensors h (parameters nt), adam_init lib)))"
  using assms loop_at_checkpoint_cases [of lib h nt x y pt pv k]
  by (simp_all add: model_params_recorded optimizer_state_recorded loop_at_tensors loop_at_optim)


lemma loop1_0: "loop_at lin_lib (heap_w w) net1 xs1 ys1 (1 / 5) (1 / 10) 0 =
   \<lparr> mem = \<lparr> tensors = (\<lambda>a. w), optim_states = (\<lambda>a. 0), optim_next = Suc 0 \<rparr>,
     l = Fin (12345 / 100), best_l = Fin (1 / 1000), checkpoint = Map.empty, printed = [] \<rparr>"
  by (simp add: loop_at_0 new_optimizer1 init_state_def)

lemma loop1_tensors: "tensors (mem (loop_at lin_lib (heap_w w) net1 xs1 ys1 (1 / 5) (1 / 10) k)) 0 =
   fst (steps lin_lib (train_test_split xs1 ys1 (1 / 5) (1 / 10)) k (w, 0))"
  using loop_at_tensors [of lin_lib "heap_w w" net1 xs1 ys1 "1 / 5" "1 / 10" k]
  by (simp add: net1_def heap_w_def lin_lib_def)

lemma loop1_optim: "optim_states (mem (loop_at lin_lib (heap_w w) net1 xs1 ys1 (1 / 5) (1 / 10) k)) 0 =
   snd (steps lin_lib (train_test_split xs1 ys1 (1 / 5) (1 / 10)) k (w, 0))"
  using loop_at_optim [of lin_lib "heap_w w" net1 xs1 ys1 "1 / 5" "1 / 10" k]
  by (simp add: net1_def heap_w_def lin_lib_def new_optimizer_def)

lemma loop1_step:
  "(best_l (loop_at lin_lib (heap_w w) net1 xs1 ys1 (1 / 5) (1 / 10) (Suc k)),
    checkpoint (loop_at lin_lib (heap_w w) net1 xs1 ys1 (1 / 5) (1 / 10) (Suc k))) =
   (if flt (test_loss lin_lib (train_test_split xs1 ys1 (1 / 5) (1 / 10)) w k)
           (best_l (loop_at lin_lib (heap_w w) net1 xs1 ys1 (1 / 5) (1 / 10) k))
    then (test_loss lin_lib (train_test_split xs1 ys1 (1 / 5) (1 / 10)) w k, recorded net1 0)
    else (best_l (loop_at lin_lib (heap_w w) net1 xs1 ys1 (1 / 5) (1 / 10) k),
          checkpoint (loop_at lin_lib (heap_w w) net1 xs1 ys1 (1 / 5) (1 / 10) k)))"
  using loop_at_step [of lin_lib "heap_w w" net1 xs1 ys1 "1 / 5" "1 / 10" k]
  by (simp add: new_optimizer1) (simp add: heap_w_def net1_def)

lemma loop1_after_1:
  "best_l (loop_at lin_lib (heap_w 1) net1 xs1 ys1 (1 / 5) (1 / 10) (Suc 0)) = Fin 0 \<and>
   checkpoint (loop_at lin_lib (heap_w 1) net1 xs1 ys1 (1 / 5) (1 / 10) (Suc 0)) = recorded net1 0"
  using loop1_step [of 1 0] by (simp add: loop1_0 test_loss1 steps1_0)

lemma loop1_after_2:
  "best_l (loop_at lin_lib (heap_w 1) net1 xs1 ys1 (1 / 5) (1 / 10) (Suc (Suc 0))) = Fin 0 \<and>
   checkpoint (loop_at lin_lib (heap_w 1) net1 xs1 ys1 (1 / 5) (1 / 10) (Suc (Suc 0))) = recorded net1 0"
  using loop1_step [of 1 "Suc 0"] loop1_after_1 by (simp add: test_loss1 steps1_0 steps1_Suc)

lemma steps1_two:
  "steps lin_lib (train_test_split xs1 ys1 (1 / 5) (1 / 10)) (Suc 0) (1, 0) = (99 / 100, Suc 0)"
  "steps lin_lib (train_test_split xs1 ys1 (1 / 5) (1 / 10)) (Suc (Suc 0)) (1, 0) = (49 / 50, Suc (Suc 0))"
  by (simp_all add: steps1_Suc steps1_0)


subsection \<open>Two runs from equal parameter values\<close>

lemma model_params_empty: "model_params h Map.empty = None"
  by (simp add: model_params_def)

lemma optimizer_state_empty: "optimizer_state h Map.empty = None"
  by (simp add: optimizer_state_def)

lemma recorded_not_empty: "recorded nt opt \<noteq> Map.empty"
proof
  assume "recorded nt opt = Map.empty"
  then have "recorded nt opt ''n_hidden'' = None" by simp
  then show False by (simp add: recorded_def)
qed

lemma loop_at_agree:
  assumes "tensors h1 (parameters nt1) = tensors h2 (parameters nt2)"
  shows "best_l (loop_at lib h1 nt1 x y pt pv k) = best_l (loop_at lib h2 nt2 x y pt pv k) \<and>
    (checkpoint (loop_at lib h1 nt1 x y pt pv k) = Map.empty \<longleftrightarrow>
     checkpoint (loop_at lib h2 nt2 x y pt pv k) = Map.empty)"
proof (induction k)
  case 0
  show ?case by (simp add: loop_at_0 init_state_def)
next
  case (Suc k)
  show ?case
    using Suc loop_at_step [of lib h1 nt1 x y pt pv k] loop_at_step [of lib h2 nt2 x y pt pv k]
    by (auto simp: assms recorded_not_empty split: if_splits)
qed

lemma checkpoint_params_agree:
  assumes "tensors h1 (parameters nt1) = tensors h2 (parameters nt2)"
  shows "model_params (mem (loop_at lib h1 nt1 x y pt pv k)) (checkpoint (loop_at lib h1 nt1 x y pt pv k)) =
         model_params (mem (loop_at lib h2 nt2 x y pt pv k)) (checkpoint (loop_at lib h2 nt2 x y pt pv k))"
    and "optimizer_state (mem (loop_at lib h1 nt1 x y pt pv k)) (checkpoint (loop_at lib h1 nt1 x y pt pv k)) =
         optimizer_state (mem (loop_at lib h2 nt2 x y pt pv k)) (checkpoint (loop_at lib h2 nt2 x y pt pv k))"
proof -
  have e: "checkpoint (loop_at lib h1 nt1 x y pt pv k) = Map.empty \<longleftrightarrow>
     checkpoint (loop_at lib h2 nt2 x y pt pv k) = Map.empty"
    using loop_at_agree [OF assms] by blast
  show "model_params (mem (loop_at lib h1 nt1 x y pt pv k)) (checkpoint (loop_at lib h1 nt1 x y pt pv k)) =
         model_params (mem (loop_at lib h2 nt2 x y pt pv k)) (checkpoint (loop_at lib h2 nt2 x y pt pv k))"
  proof (cases "checkpoint (loop_at lib h1 nt1 x y pt pv k) = Map.empty")
    case True
    then show ?thesis using e by (simp add: model_params_empty)
  next
    case False
    then show ?thesis
      using e checkpoint_reads_live_state(1) [of lib h1 nt1 x y pt pv k]
        checkpoint_reads_live_state(1) [of lib h2 nt2 x y pt pv k]
      by (simp add: assms)
  qed
  show "optimizer_state (mem (loop_at lib h1 nt1 x y pt pv k)) (checkpoint (loop_at lib h1 nt1 x y pt pv k)) =
         optimizer_state (mem (loop_at lib h2 nt2 x y pt pv k)) (checkpoint (loop_at lib h2 nt2 x y pt pv k))"
  proof (cases "checkpoint (loop_at lib h1 nt1 x y pt pv k) = Map.empty")
    case True
    then show ?thesis using e by (simp add: optimizer_state_empty)
  next
    case False
    then show ?thesis
      using e checkpoint_reads_live_state(2) [of lib h1 nt1 x y pt pv k]
        checkpoint_reads_live_state(2) [of lib h2 nt2 x y pt pv k]
      by (simp add: assms)
  qed
qed

section \<open>Claims about the training loop\<close>

text \<open>
  C4. \<open>fit_net\<close> starts its best-loss threshold at the constant \<open>1e-3\<close>, not at infinity,
  with the empty checkpoint. An epoch records a checkpoint, and takes its test loss as
  the new best, exactly when that test loss is strictly below the best value so far;
  otherwise both stay as they were. So a run in which no epoch's test loss is strictly
  below \<open>1e-3\<close> returns \<open>1e-3\<close> and the empty dictionary.
\<close>

theorem fit_net_floor:
  "best_l (loop_at lib h nt x y pt pv 0) = Fin (1 / 1000) \<and>
   checkpoint (loop_at lib h nt x y pt pv 0) = Map.empty \<and>
   (\<forall>k. (best_l (loop_at lib h nt x y pt pv (Suc k)),
         checkpoint (loop_at lib h nt x y pt pv (Suc k))) =
        (if flt (test_loss lib (train_test_split x y pt pv) (tensors h (parameters nt)) k)
                (best_l (loop_at lib h nt x y pt pv k))
         then (test_loss lib (train_test_split x y pt pv) (tensors h (parameters nt)) k,
               [''n_hidden'' \<mapsto> Number (n_hidden nt),
                ''n_layers'' \<mapsto> Number (n_layers nt),
                ''model_state_dict'' \<mapsto> Tensors (parameters nt),
                ''optimizer_state_dict'' \<mapsto> Optim (optim_next h)])
         else (best_l (loop_at lib h nt x y pt pv k),
               checkpoint (loop_at lib h nt x y pt pv k)))) \<and>
   ((\<forall>k < nat n_epochs.
       \<not> flt (test_loss lib (train_test_split x y pt pv) (tensors h (parameters nt)) k)
             (Fin (1 / 1000)))
    \<longrightarrow> fst (fit_net lib h nt n_epochs x y pt pv device) = (Fin (1 / 1000), Map.empty))"
proof -
  have a: "best_l (loop_at lib h nt x y pt pv 0) = Fin (1 / 1000) \<and>
           checkpoint (loop_at lib h nt x y pt pv 0) = Map.empty"
    by (simp add: loop_at_0 init_state_def)
  have r: "recorded nt (fst (new_optimizer lib h)) =
      [''n_hidden'' \<mapsto> Number (n_hidden nt),
       ''n_layers'' \<mapsto> Number (n_layers nt),
       ''model_state_dict'' \<mapsto> Tensors (parameters nt),
       ''optimizer_state_dict'' \<mapsto> Optim (optim_next h)]"
    by (simp add: recorded_def state_dict_def optimizer_state_dict_def new_optimizer_def)
  have c: "fst (fit_net lib h nt n_epochs x y pt pv device) = (Fin (1 / 1000), Map.empty)"
    if "\<forall>k < nat n_epochs.
       \<not> flt (test_loss lib (train_test_split x y pt pv) (tensors h (parameters nt)) k)
             (Fin (1 / 1000))"
    using loop_at_floor [of "nat n_epochs" lib x y pt pv h nt] that
    by (simp add: fit_net_loop)
  show ?thesis
    using a c loop_at_step [of lib h nt x y pt pv] unfolding r by blast
qed

theorem fit_net_floor_witness:
  "\<not> flt (test_loss lin_lib (train_test_split xs1 ys1 (1 / 5) (1 / 10)) 0 0) (Fin (1 / 1000)) \<and>
   \<not> flt (test_loss lin_lib (train_test_split xs1 ys1 (1 / 5) (1 / 10)) 0 1) (Fin (1 / 1000)) \<and>
   fst (fit_net lin_lib (heap_w 0) net1 2 xs1 ys1 (1 / 5) (1 / 10) ''cpu'') =
     (Fin (1 / 1000), Map.empty)"
proof -
  have l0: "\<not> flt (test_loss lin_lib (train_test_split xs1 ys1 (1 / 5) (1 / 10)) 0 0) (Fin (1 / 1000))"
    by (simp add: test_loss1 steps1_0)
  have l1: "\<not> flt (test_loss lin_lib (train_test_split xs1 ys1 (1 / 5) (1 / 10)) 0 1) (Fin (1 / 1000))"
    by (simp add: test_loss1 steps1_0 steps1_Suc)
  have all: "\<forall>k < nat 2. \<not> flt (test_loss lin_lib (train_test_split xs1 ys1 (1 / 5) (1 / 10))
       (tensors (heap_w 0) (parameters net1)) k) (Fin (1 / 1000))"
    using l0 l1 by (simp add: heap_w_def less_Suc_eq numeral_2_eq_2)
  show ?thesis
    using fit_net_floor [of lin_lib "heap_w 0" net1 xs1 ys1 "1 / 5" "1 / 10" 2 "''cpu''"] all l0 l1
    by blast
qed



text \<open>
  C3 fails on the code. The checkpoint holds references, not copies: in a two-epoch run
  from the weight 1, epoch 0 improves and records the checkpoint, which then reads
  weight 0.99 and optimizer state 1; epoch 1 does not improve (test loss 0.01), yet
  after its optimizer step the returned checkpoint reads weight 0.98 and optimizer
  state 2.
\<close>

theorem checkpoint_overwritten_by_later_step:
  "checkpoint (loop_at lin_lib (heap_w 1) net1 xs1 ys1 (1 / 5) (1 / 10) 1) = recorded net1 0 \<and>
   model_params (mem (loop_at lin_lib (heap_w 1) net1 xs1 ys1 (1 / 5) (1 / 10) 1))
     (checkpoint (loop_at lin_lib (heap_w 1) net1 xs1 ys1 (1 / 5) (1 / 10) 1)) = Some (99 / 100) \<and>
   optimizer_state (mem (loop_at lin_lib (heap_w 1) net1 xs1 ys1 (1 / 5) (1 / 10) 1))
     (checkpoint (loop_at lin_lib (heap_w 1) net1 xs1 ys1 (1 / 5) (1 / 10) 1)) = Some 1 \<and>
   test_loss lin_lib (train_test_split xs1 ys1 (1 / 5) (1 / 10)) 1 1 = Fin (1 / 100) \<and>
   fst (fit_net lin_lib (heap_w 1) net1 2 xs1 ys1 (1 / 5) (1 / 10) ''cpu'') =
     (Fin 0, recorded net1 0) \<and>
   model_params (fst (snd (fit_net lin_lib (heap_w 1) net1 2 xs1 ys1 (1 / 5) (1 / 10) ''cpu'')))
     (snd (fst (fit_net lin_lib (heap_w 1) net1 2 xs1 ys1 (1 / 5) (1 / 10) ''cpu''))) =
     Some (49 / 50) \<and>
   optimizer_state (fst (snd (fit_net lin_lib (heap_w 1) net1 2 xs1 ys1 (1 / 5) (1 / 10) ''cpu'')))
     (snd (fst (fit_net lin_lib (heap_w 1) net1 2 xs1 ys1 (1 / 5) (1 / 10) ''cpu''))) =
     Some 2"
proof -
  have n2: "nat 2 = Suc (Suc 0)" by simp
  have a: "checkpoint (loop_at lin_lib (heap_w 1) net1 xs1 ys1 (1 / 5) (1 / 10) 1) = recorded net1 0"
    using loop1_after_1 by simp
  have p: "parameters net1 = 0" by (simp add: net1_def)
  have b: "model_params (mem (loop_at lin_lib (heap_w 1) net1 xs1 ys1 (1 / 5) (1 / 10) 1))
     (checkpoint (loop_at lin_lib (heap_w 1) net1 xs1 ys1 (1 / 5) (1 / 10) 1)) = Some (99 / 100)"
    using loop1_after_1 by (simp add: model_params_recorded p loop1_tensors steps1_two)
  have c: "optimizer_state (mem (loop_at lin_lib (heap_w 1) net1 xs1 ys1 (1 / 5) (1 / 10) 1))
     (checkpoint (loop_at lin_lib (heap_w 1) net1 xs1 ys1 (1 / 5) (1 / 10) 1)) = Some 1"
    using loop1_after_1 by (simp add: optimizer_state_recorded loop1_optim steps1_two)
  have d: "test_loss lin_lib (train_test_split xs1 ys1 (1 / 5) (1 / 10)) 1 1 = Fin (1 / 100)"
    by (simp add: test_loss1 steps1_two power2_eq_square)
  have e: "fst (fit_net lin_lib (heap_w 1) net1 2 xs1 ys1 (1 / 5) (1 / 10) ''cpu'') =
     (Fin 0, recorded net1 0)"
    unfolding fit_net_loop n2 using loop1_after_2 by simp
  have f: "model_params (fst (snd (fit_net lin_lib (heap_w 1) net1 2 xs1 ys1 (1 / 5) (1 / 10) ''cpu'')))
     (snd (fst (fit_net lin_lib (heap_w 1) net1 2 xs1 ys1 (1 / 5) (1 / 10) ''cpu''))) =
     Some (49 / 50)"
    unfolding fit_net_loop n2 using loop1_after_2
    by (simp add: model_params_recorded p loop1_tensors steps1_two)
  have g: "optimizer_state (fst (snd (fit_net lin_lib (heap_w 1) net1 2 xs1 ys1 (1 / 5) (1 / 10) ''cpu'')))
     (snd (fst (fit_net lin_lib (heap_w 1) net1 2 xs1 ys1 (1 / 5) (1 / 10) ''cpu''))) =
     Some 2"
    unfolding fit_net_loop n2 using loop1_after_2
    by (simp add: optimizer_state_recorded loop1_optim steps1_two)
  show ?thesis using a b c d e f g by blast
qed

text \<open>
  C2 fails on the code. The same run returns the best test loss 0, below the floor
  \<open>1e-3\<close>, but the parameters of the returned checkpoint give the test loss 0.04.
\<close>

theorem returned_checkpoint_misses_best_loss:
  "fst (fst (fit_net lin_lib (heap_w 1) net1 2 xs1 ys1 (1 / 5) (1 / 10) ''cpu'')) = Fin 0 \<and>
   flt (Fin 0) (Fin (1 / 1000)) \<and>
   model_params (fst (snd (fit_net lin_lib (heap_w 1) net1 2 xs1 ys1 (1 / 5) (1 / 10) ''cpu'')))
     (snd (fst (fit_net lin_lib (heap_w 1) net1 2 xs1 ys1 (1 / 5) (1 / 10) ''cpu''))) =
     Some (49 / 50) \<and>
   mse_forward lin_lib (49 / 50) (x_test (train_test_split xs1 ys1 (1 / 5) (1 / 10)))
     (y_test (train_test_split xs1 ys1 (1 / 5) (1 / 10))) = Fin (1 / 25)"
proof -
  have n2: "nat 2 = Suc (Suc 0)" by simp
  have p: "parameters net1 = 0" by (simp add: net1_def)
  have a: "fst (fst (fit_net lin_lib (heap_w 1) net1 2 xs1 ys1 (1 / 5) (1 / 10) ''cpu'')) = Fin 0"
    unfolding fit_net_loop n2 using loop1_after_2 by simp
  have b: "model_params (fst (snd (fit_net lin_lib (heap_w 1) net1 2 xs1 ys1 (1 / 5) (1 / 10) ''cpu'')))
     (snd (fst (fit_net lin_lib (heap_w 1) net1 2 xs1 ys1 (1 / 5) (1 / 10) ''cpu''))) =
     Some (49 / 50)"
    unfolding fit_net_loop n2 using loop1_after_2
    by (simp add: model_params_recorded p loop1_tensors steps1_two)
  have c: "mse_forward lin_lib (49 / 50) (x_test (train_test_split xs1 ys1 (1 / 5) (1 / 10)))
     (y_test (train_test_split xs1 ys1 (1 / 5) (1 / 10))) = Fin (1 / 25)"
    unfolding split1 by (simp add: lin_lib_def lin_mse_def power2_eq_square)
  show ?thesis using a b c by simp
qed

text \<open>
  C8. \<open>fit_net\<close> is deterministic: two calls on networks whose initial parameter values
  are equal, with the same features, labels, fractions, epoch count and device, return
  the same best test loss, and their checkpoints hold the same parameter values and
  the same optimizer state. The two calls may run in different heaps, on network and
  optimizer objects at different addresses.
\<close>

theorem fit_net_deterministic:
  assumes "tensors h1 (parameters nt1) = tensors h2 (parameters nt2)"
  shows
    "fst (fst (fit_net lib h1 nt1 n_epochs x y pct_test pct_validation device)) =
     fst (fst (fit_net lib h2 nt2 n_epochs x y pct_test pct_validation device)) \<and>
     model_params (fst (snd (fit_net lib h1 nt1 n_epochs x y pct_test pct_validation device)))
       (snd (fst (fit_net lib h1 nt1 n_epochs x y pct_test pct_validation device))) =
     model_params (fst (snd (fit_net lib h2 nt2 n_epochs x y pct_test pct_validation device)))
       (snd (fst (fit_net lib h2 nt2 n_epochs x y pct_test pct_validation device))) \<and>
     optimizer_state (fst (snd (fit_net lib h1 nt1 n_epochs x y pct_test pct_validation device)))
       (snd (fst (fit_net lib h1 nt1 n_epochs x y pct_test pct_validation device))) =
     optimizer_state (fst (snd (fit_net lib h2 nt2 n_epochs x y pct_test pct_validation device)))
       (snd (fst (fit_net lib h2 nt2 n_epochs x y pct_test pct_validation device)))"
  using loop_at_agree [OF assms, of lib x y pct_test pct_validation "nat n_epochs"]
    checkpoint_params_agree [OF assms, of lib x y pct_test pct_validation "nat n_epochs"]
  by (simp add: fit_net_loop)

text \<open>Two runs from the weight 1: one in \<open>heap_w 1\<close>, one in \<open>heap2\<close>.\<close>

theorem fit_net_deterministic_witness:
  "tensors (heap_w 1) (parameters net1) = tensors heap2 (parameters net2) \<and>
   fst (fst (fit_net lin_lib heap2 net2 2 xs1 ys1 (1 / 5) (1 / 10) ''cpu'')) = Fin 0 \<and>
   model_params (fst (snd (fit_net lin_lib heap2 net2 2 xs1 ys1 (1 / 5) (1 / 10) ''cpu'')))
     (snd (fst (fit_net lin_lib heap2 net2 2 xs1 ys1 (1 / 5) (1 / 10) ''cpu''))) = Some (49 / 50)"
proof -
  have n2: "nat 2 = Suc (Suc 0)" by simp
  have p: "parameters net1 = 0" by (simp add: net1_def)
  have h: "tensors (heap_w 1) (parameters net1) = tensors heap2 (parameters net2)"
    by (simp add: heap_w_def heap2_def net1_def net2_def)
  have a: "fst (fst (fit_net lin_lib (heap_w 1) net1 2 xs1 ys1 (1 / 5) (1 / 10) ''cpu'')) = Fin 0"
    unfolding fit_net_loop n2 using loop1_after_2 by simp
  have b: "model_params (fst (snd (fit_net lin_lib (heap_w 1) net1 2 xs1 ys1 (1 / 5) (1 / 10) ''cpu'')))
     (snd (fst (fit_net lin_lib (heap_w 1) net1 2 xs1 ys1 (1 / 5) (1 / 10) ''cpu''))) =
     Some (49 / 50)"
    unfolding fit_net_loop n2 using loop1_after_2
    by (simp add: model_params_recorded p loop1_tensors steps1_two)
  show ?thesis
    using fit_net_deterministic [OF h, of lin_lib 2 xs1 ys1 "1 / 5" "1 / 10" "''cpu''"] h a b
    by simp
qed

section \<open>Claims about the split\<close>




end
